theory Spec2Isabelle
  imports Main
begin

section \<open>Values decoded from the node API\<close>

text \<open>
  \<open>fetch_nodes\<close> returns whatever \<open>json.loads\<close> decodes, so a node and each of its
  fields may be any JSON value. A Python float is kept as the three things this program
  observes of it: its \<open>repr\<close> (which identifies it), its truth value (\<open>False\<close> for
  \<open>0.0\<close> and \<open>-0.0\<close>) and the instant \<open>datetime.fromtimestamp\<close> rounds it to, in
  microseconds since the epoch (\<open>None\<close> where \<open>fromtimestamp\<close> rejects it: nan, inf and
  values outside the years 1 to 9999).
  A Python \<open>dict\<close> is an association list read with \<open>map_of\<close>.
\<close>

datatype pyfloat = PyFloat (float_repr: string) (float_truth: bool) (float_utc: "int option")

datatype json =
    JNull
  | JBool bool
  | JInt int
  | JFloat pyfloat
  | JStr string
  | JArr "json list"
  | JObj "(string \<times> json) list"

text \<open>
  The exceptions the program can meet, all of them subclasses of Python's \<open>Exception\<close>.
  \<open>OutOfRange\<close> stands for what \<open>datetime.fromtimestamp\<close> raises on a number it cannot
  turn into a datetime (\<open>ValueError\<close>, \<open>OverflowError\<close> or \<open>OSError\<close>, by how far out of
  range the number is); \<open>FetchError\<close> for a failure of the request, of the decoding or of
  the JSON parse in \<open>fetch_nodes\<close>.
\<close>

datatype error = TypeError | AttributeError | OutOfRange | FetchError

text \<open>\<open>d.get(k)\<close> and \<open>d.get(k, default)\<close>.\<close>

definition dict_get :: "(string \<times> json) list \<Rightarrow> string \<Rightarrow> json" where
  "dict_get d k = (case map_of d k of None \<Rightarrow> JNull | Some v \<Rightarrow> v)"

definition dict_get_default :: "(string \<times> json) list \<Rightarrow> string \<Rightarrow> json \<Rightarrow> json" where
  "dict_get_default d k dflt = (case map_of d k of None \<Rightarrow> dflt | Some v \<Rightarrow> v)"

text \<open>Python's truth value of a decoded JSON value, as \<open>if node.get("hidden")\<close> tests it.\<close>

fun truthy :: "json \<Rightarrow> bool" where
  "truthy JNull = False"
| "truthy (JBool b) = b"
| "truthy (JInt n) = (n \<noteq> 0)"
| "truthy (JFloat f) = float_truth f"
| "truthy (JStr s) = (s \<noteq> [])"
| "truthy (JArr xs) = (xs \<noteq> [])"
| "truthy (JObj d) = (d \<noteq> [])"

text \<open>
  Library functions whose text output the program only passes on:
  \<open>py_format v\<close> is \<open>format(v, "")\<close>, what an f-string field \<open>{v}\<close> produces;
  \<open>py_strftime t\<close> is \<open>dt.strftime("%Y-%m-%d %H:%M:%S UTC")\<close> for the UTC datetime
  \<open>t\<close> microseconds after the epoch.
\<close>

record pylib =
  py_format :: "json \<Rightarrow> string"
  py_strftime :: "int \<Rightarrow> string"

section \<open>Timestamps\<close>

text \<open>
  \<open>datetime.fromtimestamp(ts, tz=timezone.utc)\<close>, as microseconds since the epoch.
  An integer is accepted from 0001-01-01 00:00:00 to 9999-12-31 23:59:59; \<open>bool\<close> is a
  subclass of \<open>int\<close>; anything that is not a number raises \<open>TypeError\<close>.
\<close>

definition MIN_TIMESTAMP :: int where
  "MIN_TIMESTAMP = - 62135596800"

definition MAX_TIMESTAMP :: int where
  "MAX_TIMESTAMP = 253402300799"

fun fromtimestamp :: "json \<Rightarrow> error + int" where
  "fromtimestamp (JInt n) =
     (if MIN_TIMESTAMP \<le> n \<and> n \<le> MAX_TIMESTAMP then Inr (n * 1000000) else Inl OutOfRange)"
| "fromtimestamp (JBool b) = Inr (if b then 1000000 else 0)"
| "fromtimestamp (JFloat f) =
     (case float_utc f of None \<Rightarrow> Inl OutOfRange | Some us \<Rightarrow> Inr us)"
| "fromtimestamp JNull = Inl TypeError"
| "fromtimestamp (JStr s) = Inl TypeError"
| "fromtimestamp (JArr xs) = Inl TypeError"
| "fromtimestamp (JObj d) = Inl TypeError"

definition fmt_time :: "pylib \<Rightarrow> json \<Rightarrow> error + string" where
  "fmt_time py ts =
     (case fromtimestamp ts of Inl e \<Rightarrow> Inl e | Inr dt \<Rightarrow> Inr (py_strftime py dt))"

section \<open>The icon decision\<close>

definition ICON_YELLOW :: string where
  "ICON_YELLOW = ''https://maps.google.com/mapfiles/kml/paddle/ylw-blank.png''"

definition ICON_RED :: string where
  "ICON_RED = ''https://maps.google.com/mapfiles/kml/paddle/X.png''"

definition ICON_GREEN :: string where
  "ICON_GREEN = ''https://maps.google.com/mapfiles/kml/paddle/grn-blank.png''"

text \<open>\<open>timedelta(minutes=5)\<close> in microseconds.\<close>

definition FIVE_MINUTES :: int where
  "FIVE_MINUTES = 5 * 60 * 1000000"

text \<open>
  \<open>icon_href(keyed, last_report)\<close>. The function reads the clock itself
  (\<open>datetime.now(tz=timezone.utc)\<close>); \<open>now\<close> is what that read returns, in microseconds
  since the epoch. The age is computed, and \<open>fromtimestamp\<close> may raise, before \<open>keyed\<close> is
  looked at.
\<close>

definition icon_href :: "int \<Rightarrow> json \<Rightarrow> json \<Rightarrow> error + string" where
  "icon_href now keyed last_report =
     (case fromtimestamp last_report of
        Inl e \<Rightarrow> Inl e
      | Inr dt \<Rightarrow>
          (let age = now - dt in
           if keyed = JStr ''1'' then Inr ICON_YELLOW
           else if age > FIVE_MINUTES then Inr ICON_RED
           else Inr ICON_GREEN))"

section \<open>The KML document\<close>

text \<open>
  The element tree \<open>build_kml\<close> returns: the namespace of the root element, the fixed
  head of the document and one entry per \<open>Placemark\<close> element, in document order. The \<open>text\<close> of \<open>name\<close> and of
  \<open>description\<close> is the object the node holds, not necessarily a string.
\<close>

record placemark =
  pm_name :: json
  pm_description :: json
  pm_styleUrl :: string
  pm_scale :: string
  pm_href :: string
  pm_lastReport :: string
  pm_keyed :: string
  pm_coordinates :: string

record kml =
  xmlns :: string
  doc_name :: string
  style_id :: string
  bgColor :: string
  textColor :: string
  balloon_text :: string
  placemarks :: "placemark list"

definition BALLOON_TEXT :: string where
  "BALLOON_TEXT =
     [CHR 0x0A] @ ''        <![CDATA['' @
     [CHR 0x0A] @ ''        <b>$[name]</b><br/>'' @
     [CHR 0x0A] @ ''        Frequency: $[description]<br/>'' @
     [CHR 0x0A] @ ''        Last report: $[lastReport]<br/>'' @
     [CHR 0x0A] @ ''        Keyed: $[keyed]<br/>'' @
     [CHR 0x0A] @ ''        ]'' @ '']>'' @
     [CHR 0x0A] @ ''    ''"

text \<open>
  The body of the loop of \<open>build_kml\<close> once a node has passed both \<open>continue\<close> tests:
  the placemark built from the dict \<open>d\<close>, with \<open>now\<close> the clock read of this call of
  \<open>icon_href\<close>.
\<close>

definition make_placemark :: "pylib \<Rightarrow> int \<Rightarrow> (string \<times> json) list \<Rightarrow> error + placemark" where
  "make_placemark py now d =
     (let lat = dict_get d ''latitude'';
          lon = dict_get d ''longitude'' in
      case icon_href now (dict_get_default d ''keyed'' (JStr ''0''))
                         (dict_get_default d ''time'' (JInt 0)) of
        Inl e \<Rightarrow> Inl e
      | Inr href \<Rightarrow>
          (case fmt_time py (dict_get_default d ''time'' (JInt 0)) of
             Inl e \<Rightarrow> Inl e
           | Inr stamp \<Rightarrow>
               Inr \<lparr> pm_name = dict_get_default d ''name'' (JStr ''Unnamed''),
                     pm_description = dict_get_default d ''description'' (JStr ''''),
                     pm_styleUrl = ''#repeaterStyle'',
                     pm_scale = ''1.2'',
                     pm_href = href,
                     pm_lastReport = stamp,
                     pm_keyed = (if dict_get d ''keyed'' = JStr ''1'' then ''Yes'' else ''No''),
                     pm_coordinates = py_format py lon @ '','' @ py_format py lat @ '',0'' \<rparr>))"

text \<open>
  The loop \<open>for node in nodes\<close>. \<open>clk k\<close> is the \<open>k\<close>-th read of the clock during the
  call of \<open>build_kml\<close>, counted from 0; \<open>icon_href\<close> reads it once for every node that
  reaches it. A node that is not a dict has no \<open>get\<close>: \<open>AttributeError\<close>.
\<close>

fun build_placemarks :: "pylib \<Rightarrow> (nat \<Rightarrow> int) \<Rightarrow> nat \<Rightarrow> json list \<Rightarrow> error + placemark list" where
  "build_placemarks py clk k [] = Inr []"
| "build_placemarks py clk k (JObj d # rest) =
     (if truthy (dict_get d ''hidden'') then build_placemarks py clk k rest
      else if dict_get d ''latitude'' = JNull \<or> dict_get d ''longitude'' = JNull
      then build_placemarks py clk k rest
      else
        (case make_placemark py (clk k) d of
           Inl e \<Rightarrow> Inl e
         | Inr pm \<Rightarrow>
             (case build_placemarks py clk (Suc k) rest of
                Inl e \<Rightarrow> Inl e
              | Inr pms \<Rightarrow> Inr (pm # pms))))"
| "build_placemarks py clk k (node # rest) = Inl AttributeError"

text \<open>
  What \<open>for node in nodes\<close> iterates over: the elements of a list, the keys of a dict, the
  characters of a string (here its bytes, each a string again); anything else is not
  iterable.
\<close>

fun py_iter :: "json \<Rightarrow> error + json list" where
  "py_iter (JArr xs) = Inr xs"
| "py_iter (JObj d) = Inr (map (\<lambda>kv. JStr (fst kv)) d)"
| "py_iter (JStr s) = Inr (map (\<lambda>c. JStr [c]) s)"
| "py_iter v = Inl TypeError"

definition build_kml :: "pylib \<Rightarrow> (nat \<Rightarrow> int) \<Rightarrow> json \<Rightarrow> error + kml" where
  "build_kml py clk nodes =
     (case py_iter nodes of
        Inl e \<Rightarrow> Inl e
      | Inr ns \<Rightarrow>
          (case build_placemarks py clk 0 ns of
             Inl e \<Rightarrow> Inl e
           | Inr pms \<Rightarrow>
               Inr \<lparr> xmlns = ''http://www.opengis.net/kml/2.2'',
                     doc_name = ''NGGMRS Repeater Status'',
                     style_id = ''repeaterStyle'',
                     bgColor = ''ffffffff'',
                     textColor = ''ff000000'',
                     balloon_text = BALLOON_TEXT,
                     placemarks = pms \<rparr>))"

text \<open>A node for which the loop reaches the placemark: a dict that passes both tests.\<close>

fun qualifies :: "json \<Rightarrow> bool" where
  "qualifies (JObj d) =
     (\<not> truthy (dict_get d ''hidden'')
      \<and> dict_get d ''latitude'' \<noteq> JNull \<and> dict_get d ''longitude'' \<noteq> JNull)"
| "qualifies v = False"


text \<open>The dict of a node, for stating what a placemark was built from.\<close>

fun node_dict :: "json \<Rightarrow> (string \<times> json) list" where
  "node_dict (JObj d) = d"
| "node_dict v = []"

section \<open>The refresh cycle\<close>

definition UPDATE_INTERVAL :: nat where
  "UPDATE_INTERVAL = 5 * 60"

text \<open>
  What is in the file \<open>OUTPUT_KML\<close>. \<open>ElementTree.write\<close> opens the file for writing,
  which empties it, and then serialises element by element; when the serialiser raises,
  the file is left with the part written so far (\<open>Partial\<close>).
\<close>

datatype file_content = Complete kml | Partial kml

text \<open>The lines \<open>update_kml\<close> prints, without their time prefix.\<close>

datatype log_event = LogFetching | LogGot nat | LogWritten | LogError error

record world =
  out_file :: "file_content option"
  out_log :: "log_event list"

text \<open>\<open>len(nodes)\<close>; a string is counted in bytes here.\<close>

fun py_len :: "json \<Rightarrow> error + nat" where
  "py_len (JArr xs) = Inr (length xs)"
| "py_len (JObj d) = Inr (length d)"
| "py_len (JStr s) = Inr (length s)"
| "py_len v = Inl TypeError"

text \<open>
  The serialiser writes the \<open>text\<close> of an element only when it is truthy, and then it
  must be a string: any other truthy object makes it raise \<open>TypeError\<close>. Only the texts of
  \<open>name\<close> and \<open>description\<close> can be something else than a string.
\<close>

fun text_serializable :: "json \<Rightarrow> bool" where
  "text_serializable (JStr s) = True"
| "text_serializable v = (\<not> truthy v)"

definition serializable :: "kml \<Rightarrow> bool" where
  "serializable tree =
     list_all (\<lambda>p. text_serializable (pm_name p) \<and> text_serializable (pm_description p))
       (placemarks tree)"

text \<open>
  The \<open>try\<close> block of \<open>update_kml\<close>: the exception it ends with, if any, and the world
  it leaves. \<open>fetched\<close> is the outcome of \<open>fetch_nodes()\<close> in this cycle. The file
  system is taken to accept the write, so that \<open>tree.write\<close> fails only in the
  serialiser.
\<close>

definition update_try :: "pylib \<Rightarrow> error + json \<Rightarrow> (nat \<Rightarrow> int) \<Rightarrow> world \<Rightarrow> error option \<times> world" where
  "update_try py fetched clk w =
     (let w1 = w\<lparr>out_log := out_log w @ [LogFetching]\<rparr> in
      case fetched of
        Inl e \<Rightarrow> (Some e, w1)
      | Inr nodes \<Rightarrow>
          (case py_len nodes of
             Inl e \<Rightarrow> (Some e, w1)
           | Inr n \<Rightarrow>
               (let w2 = w1\<lparr>out_log := out_log w1 @ [LogGot n]\<rparr> in
                case build_kml py clk nodes of
                  Inl e \<Rightarrow> (Some e, w2)
                | Inr tree \<Rightarrow>
                    if serializable tree
                    then (None, w2\<lparr>out_file := Some (Complete tree),
                                    out_log := out_log w2 @ [LogWritten]\<rparr>)
                    else (Some TypeError, w2\<lparr>out_file := Some (Partial tree)\<rparr>))))"

text \<open>
  \<open>update_kml()\<close>: the \<open>try\<close> block, the handler \<open>except Exception\<close> (which catches
  every member of \<open>error\<close> and prints it), and then the statement after the handler,
  \<open>threading.Timer(UPDATE_INTERVAL, update_kml).start()\<close>. The result is the world the
  call leaves and the intervals, in seconds, of the timers it has started.
\<close>

definition update_kml :: "pylib \<Rightarrow> error + json \<Rightarrow> (nat \<Rightarrow> int) \<Rightarrow> world \<Rightarrow> world \<times> nat list" where
  "update_kml py fetched clk w =
     (case update_try py fetched clk w of
        (None, w') \<Rightarrow> (w', [UPDATE_INTERVAL])
      | (Some e, w') \<Rightarrow> (w'\<lparr>out_log := out_log w' @ [LogError e]\<rparr>, [UPDATE_INTERVAL]))"

section \<open>The process: calls of \<open>update_kml\<close> and timers\<close>

text \<open>
  The process as far as the refresh cycle is concerned, with time in whole seconds since
  the process began: the calls of \<open>update_kml\<close> that are executing (by the time each
  began), the timers that have been started and have not yet fired (by the time each is
  due), the cycles that have completed (begin and end), and the world.
  A \<open>threading.Timer(interval, f)\<close> started at time \<open>t\<close> calls \<open>f\<close> once, not before
  \<open>t + interval\<close>.
\<close>

record process =
  p_time :: nat
  p_running :: "nat list"
  p_timers :: "nat list"
  p_done :: "(nat \<times> nat) list"
  p_world :: world

text \<open>
  What can happen: time passes; a timer that is due fires and calls \<open>update_kml\<close>; an
  executing call of \<open>update_kml\<close> completes, with the outcome of its \<open>fetch_nodes()\<close> and
  its clock reads, and the timers it has started become pending. An event that cannot
  happen in the state gives \<open>None\<close>.
\<close>

datatype event =
    Tick nat
  | Fire nat
  | Finish nat "error + json" "nat \<Rightarrow> int"

fun step :: "pylib \<Rightarrow> event \<Rightarrow> process \<Rightarrow> process option" where
  "step py (Tick dt) p = Some (p\<lparr>p_time := p_time p + dt\<rparr>)"
| "step py (Fire due) p =
     (if due \<in> set (p_timers p) \<and> due \<le> p_time p
      then Some (p\<lparr>p_timers := remove1 due (p_timers p),
                   p_running := p_running p @ [p_time p]\<rparr>)
      else None)"
| "step py (Finish began fetched clk) p =
     (if began \<in> set (p_running p)
      then (case update_kml py fetched clk (p_world p) of
              (w', intervals) \<Rightarrow>
                Some (p\<lparr>p_running := remove1 began (p_running p),
                        p_timers := p_timers p @ map (\<lambda>i. p_time p + i) intervals,
                        p_done := p_done p @ [(began, p_time p)],
                        p_world := w'\<rparr>))
      else None)"

fun run :: "pylib \<Rightarrow> event list \<Rightarrow> process \<Rightarrow> process option" where
  "run py [] p = Some p"
| "run py (ev # evs) p = (case step py ev p of None \<Rightarrow> None | Some p' \<Rightarrow> run py evs p')"

text \<open>
  The entry point calls \<open>update_kml()\<close> once, immediately, and starts no timer itself.
\<close>

definition boot :: "world \<Rightarrow> process" where
  "boot w = \<lparr>p_time = 0, p_running = [0], p_timers = [], p_done = [], p_world = w\<rparr>"

text \<open>
  Cycles that follow one another with the interval between the end of each and the
  beginning of the next.
\<close>

fun spaced :: "nat \<Rightarrow> (nat \<times> nat) list \<Rightarrow> bool" where
  "spaced gap [] = True"
| "spaced gap [c] = (fst c \<le> snd c)"
| "spaced gap (c # c' # cs) = (fst c \<le> snd c \<and> snd c + gap \<le> fst c' \<and> spaced gap (c' # cs))"

text \<open>What the proof of the spacing carries from event to event.\<close>

definition cycle_inv :: "process \<Rightarrow> bool" where
  "cycle_inv p =
     ((case p_running p of
         [] \<Rightarrow> p_done p \<noteq> [] \<and> p_timers p = [snd (last (p_done p)) + UPDATE_INTERVAL]
       | [t] \<Rightarrow> p_timers p = [] \<and> t \<le> p_time p
       | _ \<Rightarrow> False)
      \<and> spaced UPDATE_INTERVAL (p_done p @ map (\<lambda>t. (t, p_time p)) (p_running p))
      \<and> list_all (\<lambda>c. snd c \<le> p_time p) (p_done p))"

section \<open>The defaults, as the specification words them\<close>

text \<open>
  The specification reads a node with a field missing as the node with the default in
  its place. \<open>set_default\<close> is \<open>dict.setdefault\<close>; \<open>with_defaults\<close> puts in the four
  defaults the specification names.
\<close>

definition set_default :: "(string \<times> json) list \<Rightarrow> string \<Rightarrow> json \<Rightarrow> (string \<times> json) list" where
  "set_default d k v = (if map_of d k = None then d @ [(k, v)] else d)"

definition with_defaults :: "(string \<times> json) list \<Rightarrow> (string \<times> json) list" where
  "with_defaults d =
     set_default (set_default (set_default (set_default d
       ''keyed'' (JStr ''0'')) ''time'' (JInt 0)) ''name'' (JStr ''Unnamed''))
       ''description'' (JStr [])"

text \<open>
  The specification's record has a boolean \<open>hidden\<close> and optional coordinates. For such
  a record, \<open>visible_with_coordinates\<close> is its wording of the record that gets a
  placemark: \<open>hidden\<close> is not true and both coordinates are present.
\<close>

fun hidden_is_boolean :: "json \<Rightarrow> bool" where
  "hidden_is_boolean (JObj d) =
     (case map_of d ''hidden'' of None \<Rightarrow> True | Some (JBool b) \<Rightarrow> True | Some v \<Rightarrow> False)"
| "hidden_is_boolean v = False"

definition field_present :: "(string \<times> json) list \<Rightarrow> string \<Rightarrow> bool" where
  "field_present d k = (case map_of d k of None \<Rightarrow> False | Some JNull \<Rightarrow> False | Some v \<Rightarrow> True)"

fun visible_with_coordinates :: "json \<Rightarrow> bool" where
  "visible_with_coordinates (JObj d) =
     (map_of d ''hidden'' \<noteq> Some (JBool True)
      \<and> field_present d ''latitude'' \<and> field_present d ''longitude'')"
| "visible_with_coordinates v = False"

section \<open>Sample inputs\<close>

text \<open>
  A library to evaluate examples with. \<open>format_scalar\<close> is \<open>format(v, "")\<close> for the
  values that are not containers (the text of a list or of a dict is not modelled and
  is left empty); \<open>strftime_utc\<close> is the pattern \<open>%Y-%m-%d %H:%M:%S UTC\<close> with the year
  in four digits.
\<close>

fun show_nat :: "nat \<Rightarrow> string" where
  "show_nat n =
     (if n < 10 then [''0123456789'' ! n]
      else show_nat (n div 10) @ [''0123456789'' ! (n mod 10)])"

declare show_nat.simps [simp del]

definition show_int :: "int \<Rightarrow> string" where
  "show_int i = (if i < 0 then ''-'' @ show_nat (nat (- i)) else show_nat (nat i))"

fun format_scalar :: "json \<Rightarrow> string" where
  "format_scalar (JStr s) = s"
| "format_scalar (JInt i) = show_int i"
| "format_scalar (JBool b) = (if b then ''True'' else ''False'')"
| "format_scalar JNull = ''None''"
| "format_scalar (JFloat f) = float_repr f"
| "format_scalar (JArr xs) = []"
| "format_scalar (JObj d) = []"

definition pad :: "nat \<Rightarrow> int \<Rightarrow> string" where
  "pad w n = (let s = show_nat (nat n) in replicate (w - length s) (CHR ''0'') @ s)"

definition civil_from_days :: "int \<Rightarrow> int \<times> int \<times> int" where
  "civil_from_days days =
     (let z = days + 719468;
          era = z div 146097;
          doe = z mod 146097;
          yoe = (doe - doe div 1460 + doe div 36524 - doe div 146096) div 365;
          doy = doe - (365 * yoe + yoe div 4 - yoe div 100);
          mp = (5 * doy + 2) div 153;
          d = doy - (153 * mp + 2) div 5 + 1;
          m = (if mp < 10 then mp + 3 else mp - 9);
          y = yoe + era * 400 + (if m \<le> 2 then 1 else 0)
      in (y, m, d))"

definition strftime_utc :: "int \<Rightarrow> string" where
  "strftime_utc us =
     (let secs = us div 1000000;
          r = secs mod 86400
      in case civil_from_days (secs div 86400) of
           (y, m, d) \<Rightarrow>
             pad 4 y @ ''-'' @ pad 2 m @ ''-'' @ pad 2 d @ '' '' @
             pad 2 (r div 3600) @ '':'' @ pad 2 (r mod 3600 div 60) @ '':'' @ pad 2 (r mod 60) @
             '' UTC'')"

definition sample_lib :: pylib where
  "sample_lib = \<lparr> py_format = format_scalar, py_strftime = strftime_utc \<rparr>"

text \<open>
  The nodes of the specification's scenarios, with \<open>now\<close> at 1700000000 seconds
  (2023-11-14 22:13:20 UTC), and a clock that advances a microsecond at each read.
\<close>

definition sample_now :: int where
  "sample_now = 1700000000"

definition sample_clock :: "nat \<Rightarrow> int" where
  "sample_clock k = sample_now * 1000000 + int k"

definition node_R1 :: json where
  "node_R1 = JObj [(''name'', JStr ''R1''),
                   (''latitude'', JFloat (PyFloat ''40.0'' True (Some 40000000))),
                   (''longitude'', JFloat (PyFloat ''-105.0'' True (Some (- 105000000)))),
                   (''keyed'', JStr ''1''), (''time'', JInt 1700000000)]"

definition node_R2 :: json where
  "node_R2 = JObj [(''name'', JStr ''R2''),
                   (''latitude'', JFloat (PyFloat ''40.0'' True (Some 40000000))),
                   (''longitude'', JFloat (PyFloat ''-105.0'' True (Some (- 105000000)))),
                   (''keyed'', JStr ''0''), (''time'', JInt 1699996400)]"

definition node_R3 :: json where
  "node_R3 = JObj [(''name'', JStr ''R3''), (''hidden'', JBool True),
                   (''latitude'', JInt 1), (''longitude'', JInt 1)]"

definition node_R4 :: json where
  "node_R4 = JObj [(''name'', JStr ''R4''), (''keyed'', JStr ''0''), (''time'', JInt 1700000000)]"

text \<open>A node with coordinates only, and an empty world.\<close>

definition node_bare :: json where
  "node_bare = JObj [(''latitude'', JInt 40), (''longitude'', JInt (- 105))]"

definition world0 :: world where
  "world0 = \<lparr>out_file = None, out_log = []\<rparr>"

text \<open>A node of which \<open>fromtimestamp\<close> accepts the time, and a node that is a dict.\<close>

fun is_dict :: "json \<Rightarrow> bool" where
  "is_dict (JObj d) = True"
| "is_dict v = False"

definition time_ok :: "json \<Rightarrow> bool" where
  "time_ok n =
     (case fromtimestamp (dict_get_default (node_dict n) ''time'' (JInt 0)) of
        Inl e \<Rightarrow> False | Inr dt \<Rightarrow> True)"

definition node_R5 :: json where
  "node_R5 = JObj [(''name'', JStr ''R5''), (''latitude'', JInt 40), (''longitude'', JInt (- 105)),
                   (''keyed'', JStr ''0''), (''time'', JInt 1700000000)]"

definition node_year10000 :: json where
  "node_year10000 = JObj [(''latitude'', JInt 1), (''longitude'', JInt 1),
                          (''keyed'', JStr ''1''), (''time'', JInt 253402300800)]"

definition sample_nodes :: "json list" where
  "sample_nodes = [node_R1, node_R2, node_R3, node_R4, node_bare]"

definition pm_R1 :: placemark where
  "pm_R1 = \<lparr> pm_name = JStr ''R1'', pm_description = JStr [],
             pm_styleUrl = ''#repeaterStyle'', pm_scale = ''1.2'',
             pm_href = ''https://maps.google.com/mapfiles/kml/paddle/ylw-blank.png'',
             pm_lastReport = ''2023-11-14 22:13:20 UTC'', pm_keyed = ''Yes'',
             pm_coordinates = ''-105.0,40.0,0'' \<rparr>"

definition pm_R2 :: placemark where
  "pm_R2 = \<lparr> pm_name = JStr ''R2'', pm_description = JStr [],
             pm_styleUrl = ''#repeaterStyle'', pm_scale = ''1.2'',
             pm_href = ''https://maps.google.com/mapfiles/kml/paddle/X.png'',
             pm_lastReport = ''2023-11-14 21:13:20 UTC'', pm_keyed = ''No'',
             pm_coordinates = ''-105.0,40.0,0'' \<rparr>"

definition pm_bare :: placemark where
  "pm_bare = \<lparr> pm_name = JStr ''Unnamed'', pm_description = JStr [],
               pm_styleUrl = ''#repeaterStyle'', pm_scale = ''1.2'',
               pm_href = ''https://maps.google.com/mapfiles/kml/paddle/X.png'',
               pm_lastReport = ''1970-01-01 00:00:00 UTC'', pm_keyed = ''No'',
               pm_coordinates = ''-105,40,0'' \<rparr>"

definition sample_doc :: kml where
  "sample_doc = \<lparr> xmlns = ''http://www.opengis.net/kml/2.2'',
                  doc_name = ''NGGMRS Repeater Status'', style_id = ''repeaterStyle'',
                  bgColor = ''ffffffff'', textColor = ''ff000000'',
                  balloon_text = BALLOON_TEXT,
                  placemarks = [pm_R1, pm_R2, pm_bare] \<rparr>"

definition world1 :: world where
  "world1 = \<lparr>out_file = Some (Complete sample_doc), out_log = []\<rparr>"

definition sample_events :: "event list" where
  "sample_events =
     [Tick 2, Finish 0 (Inl FetchError) sample_clock, Tick 300, Fire 302, Tick 1,
      Finish 302 (Inr (JArr sample_nodes)) sample_clock]"

definition node_hidden_string :: json where
  "node_hidden_string = JObj [(''hidden'', JStr ''false''), (''latitude'', JInt 1), (''longitude'', JInt 2)]"

definition node_hidden_number :: json where
  "node_hidden_number = JObj [(''hidden'', JInt 7), (''latitude'', JInt 1), (''longitude'', JInt 2)]"

definition node_hidden_list :: json where
  "node_hidden_list = JObj [(''hidden'', JArr [JNull]), (''latitude'', JInt 1), (''longitude'', JInt 2)]"

definition node_hidden_zero :: json where
  "node_hidden_zero = JObj [(''hidden'', JInt 0), (''latitude'', JInt 40), (''longitude'', JInt (- 105))]"

definition clock_then_zero :: "nat \<Rightarrow> int" where
  "clock_then_zero k = (if k < 3 then sample_clock k else 0)"

definition sample_final :: process where
  "sample_final =
     \<lparr>p_time = 303, p_running = [], p_timers = [603], p_done = [(0, 2), (302, 303)],
      p_world = \<lparr>out_file = Some (Complete sample_doc),
                  out_log = [LogFetching, LogError FetchError,
                             LogFetching, LogGot 5, LogWritten]\<rparr>\<rparr>"

section \<open>The loop of \<open>build_kml\<close>\<close>

lemma build_placemarks_enumerate:
  "build_placemarks py clk k ns = Inr pms \<Longrightarrow>
     map Inr pms =
       map (\<lambda>(i, n). make_placemark py (clk i) (node_dict n)) (enumerate k (filter qualifies ns))"
proof (induction ns arbitrary: k pms)
  case Nil
  then show ?case by simp
next
  case (Cons n ns)
  show ?case
  proof (cases n)
    case (JObj d)
    show ?thesis
    proof (cases "qualifies n")
      case False
      with Cons JObj show ?thesis by (auto split: if_splits)
    next
      case True
      with Cons.prems JObj obtain pm rest where
        pm: "make_placemark py (clk k) d = Inr pm" and
        rest: "build_placemarks py clk (Suc k) ns = Inr rest" and
        pms: "pms = pm # rest"
        by (auto split: if_splits sum.splits)
      from Cons.IH [OF rest] pm pms True JObj show ?thesis by simp
    qed
  qed (use Cons.prems in simp_all)
qed

lemma build_kml_JArr:
  "build_kml py clk (JArr ns) = Inr doc \<Longrightarrow> build_placemarks py clk 0 ns = Inr (placemarks doc)"
  by (auto simp: build_kml_def split: sum.splits)

lemma build_placemarks_length:
  assumes "build_placemarks py clk k ns = Inr pms"
  shows "length pms = length (filter qualifies ns)"
proof -
  have "length (map Inr pms :: (error + placemark) list) = length (filter qualifies ns)"
    unfolding build_placemarks_enumerate [OF assms] by simp
  then show ?thesis by simp
qed

text \<open>
  The build returns a document whenever every node is a dict and \<open>fromtimestamp\<close>
  accepts the time of every node that reaches \<open>icon_href\<close>.
\<close>

lemma make_placemark_returns:
  "time_ok (JObj d) \<Longrightarrow> \<exists>pm. make_placemark py now d = Inr pm"
  by (auto simp: time_ok_def make_placemark_def icon_href_def fmt_time_def Let_def
           split: sum.splits)

lemma build_placemarks_returns:
  "list_all (\<lambda>n. is_dict n \<and> (qualifies n \<longrightarrow> time_ok n)) ns \<Longrightarrow>
     \<exists>pms. build_placemarks py clk k ns = Inr pms"
proof (induction ns arbitrary: k)
  case Nil
  show ?case by simp
next
  case (Cons n ns)
  from Cons.prems obtain d where n: "n = JObj d" by (cases n) simp_all
  from Cons.prems have "list_all (\<lambda>n. is_dict n \<and> (qualifies n \<longrightarrow> time_ok n)) ns" by simp
  from Cons.IH [OF this] have rest: "\<exists>pms. build_placemarks py clk k' ns = Inr pms" for k'
    by blast
  show ?case
  proof (cases "qualifies n")
    case False
    with n rest [of k] show ?thesis by auto
  next
    case True
    with Cons.prems n have "time_ok (JObj d)" by simp
    from make_placemark_returns [OF this] obtain pm where
      "make_placemark py (clk k) d = Inr pm" by blast
    with True n rest [of "Suc k"] show ?thesis by auto
  qed
qed

lemma build_kml_returns:
  "list_all (\<lambda>n. is_dict n \<and> (qualifies n \<longrightarrow> time_ok n)) nodes \<Longrightarrow>
     \<exists>doc. build_kml py clk (JArr nodes) = Inr doc"
  using build_placemarks_returns [of nodes py clk 0]
  by (auto simp: build_kml_def)

lemma qualifies_boolean:
  "hidden_is_boolean n \<Longrightarrow> qualifies n = visible_with_coordinates n"
  by (cases n)
     (auto simp: dict_get_def field_present_def split: option.splits json.splits)

lemma build_placemarks_clock:
  "(\<And>i. i < length (filter qualifies ns) \<Longrightarrow> clk1 (k + i) = clk2 (k + i)) \<Longrightarrow>
     build_placemarks py clk1 k ns = build_placemarks py clk2 k ns"
proof (induction ns arbitrary: k)
  case Nil
  show ?case by simp
next
  case (Cons n ns)
  show ?case
  proof (cases n)
    case (JObj d)
    show ?thesis
    proof (cases "qualifies n")
      case False
      with Cons JObj show ?thesis by auto
    next
      case True
      from Cons.prems [of 0] True have k: "clk1 k = clk2 k" by simp
      have "build_placemarks py clk1 (Suc k) ns = build_placemarks py clk2 (Suc k) ns"
      proof (rule Cons.IH)
        fix i assume "i < length (filter qualifies ns)"
        with Cons.prems [of "Suc i"] True show "clk1 (Suc k + i) = clk2 (Suc k + i)" by simp
      qed
      with k True JObj show ?thesis by (auto split: sum.splits)
    qed
  qed simp_all
qed

lemma build_placemarks_skip:
  "\<not> qualifies (JObj d) \<Longrightarrow>
     build_placemarks py clk k (pre @ JObj d # post) = build_placemarks py clk k (pre @ post)"
proof (induction pre arbitrary: k)
  case Nil
  then show ?case by auto
next
  case (Cons n pre)
  then show ?case by (cases n) (auto split: sum.splits)
qed

lemma make_placemark_coordinates:
  "make_placemark py now d = Inr pm \<Longrightarrow>
     pm_coordinates pm =
       py_format py (dict_get d ''longitude'') @ '','' @ py_format py (dict_get d ''latitude'') @ '',0''"
  by (auto simp: make_placemark_def split: sum.splits)

section \<open>The sample inputs, evaluated\<close>

lemma sample_build:
  "build_kml sample_lib sample_clock (JArr sample_nodes) = Inr sample_doc"
  by code_simp

lemma sample_qualifying: "filter qualifies sample_nodes = [node_R1, node_R2, node_bare]"
  by code_simp

lemma sample_visible: "filter visible_with_coordinates sample_nodes = [node_R1, node_R2, node_bare]"
  by code_simp

lemma sample_booleans: "list_all hidden_is_boolean sample_nodes"
  by code_simp

section \<open>The icon decision (C1, C10)\<close>

text \<open>
  C1, as the code has it. For every integer timestamp that \<open>datetime.fromtimestamp\<close>
  accepts (from \<open>MIN_TIMESTAMP\<close> to \<open>MAX_TIMESTAMP\<close>, the years 1 to 9999), the icon
  follows the priority order: \<open>keyed == "1"\<close> gives the yellow marker whatever the
  timestamp; otherwise an age \<open>now - last_report\<close> above five minutes gives the red
  marker; otherwise the green marker. For a timestamp outside that range \<open>icon_href\<close>
  raises, whatever \<open>keyed\<close> is, because the age is computed first.
\<close>

theorem icon_href_priority:
  "(MIN_TIMESTAMP \<le> ts \<and> ts \<le> MAX_TIMESTAMP \<longrightarrow>
      icon_href now keyed (JInt ts) =
        Inr (if keyed = JStr ''1'' then ICON_YELLOW
             else if now - ts * 1000000 > 5 * 60 * 1000000 then ICON_RED
             else ICON_GREEN))
   \<and> (\<not> (MIN_TIMESTAMP \<le> ts \<and> ts \<le> MAX_TIMESTAMP) \<longrightarrow>
      icon_href now keyed (JInt ts) = Inl OutOfRange)"
  by (simp add: icon_href_def FIVE_MINUTES_def)

text \<open>
  At 2023-11-14 22:13:20: a keyed node an hour old is yellow, an unkeyed one an hour old
  is red, an unkeyed one exactly five minutes old is green, and the first second of the
  year 10000 raises.
\<close>

theorem icon_href_priority_witness:
  "MIN_TIMESTAMP \<le> 1699996400 \<and> 1699996400 \<le> MAX_TIMESTAMP
   \<and> icon_href 1700000000000000 (JStr ''1'') (JInt 1699996400) = Inr ICON_YELLOW
   \<and> icon_href 1700000000000000 (JStr ''0'') (JInt 1699996400) = Inr ICON_RED
   \<and> icon_href 1700000000000000 (JStr ''0'') (JInt 1699999700) = Inr ICON_GREEN
   \<and> \<not> (MIN_TIMESTAMP \<le> 253402300800 \<and> 253402300800 \<le> MAX_TIMESTAMP)
   \<and> icon_href 1700000000000000 (JStr ''0'') (JInt 253402300800) = Inl OutOfRange"
  using icon_href_priority [of 1699996400 1700000000000000 "JStr ''1''"]
        icon_href_priority [of 1699996400 1700000000000000 "JStr ''0''"]
        icon_href_priority [of 1699999700 1700000000000000 "JStr ''0''"]
        icon_href_priority [of 253402300800 1700000000000000 "JStr ''0''"]
  by (simp add: MIN_TIMESTAMP_def MAX_TIMESTAMP_def)

text \<open>
  A keyed node whose last report is the first second of the year 10000 does not get the
  yellow marker: \<open>icon_href\<close> raises.
\<close>

theorem icon_href_keyed_counterexample:
  "icon_href 1700000000000000 (JStr ''1'') (JInt 253402300800) = Inl OutOfRange
   \<and> icon_href 1700000000000000 (JStr ''1'') (JInt 253402300800) \<noteq> Inr ICON_YELLOW"
  by (simp add: icon_href_def MIN_TIMESTAMP_def MAX_TIMESTAMP_def)

text \<open>
  C10. In a placemark that is built, the node counts as keyed only when its \<open>keyed\<close>
  field is exactly the string \<open>"1"\<close>: then the icon is the yellow marker and the
  extended-data field reads \<open>Yes\<close>. For any other value, and for a missing field, the
  extended-data field reads \<open>No\<close> and the icon is what the staleness test gives.
\<close>

theorem keyed_exactly_one:
  assumes "make_placemark py now d = Inr pm"
  shows "(dict_get d ''keyed'' = JStr ''1'' \<longrightarrow>
            pm_href pm = ICON_YELLOW \<and> pm_keyed pm = ''Yes'')
       \<and> (dict_get d ''keyed'' \<noteq> JStr ''1'' \<longrightarrow>
            pm_keyed pm = ''No''
            \<and> (\<exists>dt. fromtimestamp (dict_get_default d ''time'' (JInt 0)) = Inr dt
                 \<and> pm_href pm = (if now - dt > FIVE_MINUTES then ICON_RED else ICON_GREEN)))"
proof -
  have same: "(dict_get_default d ''keyed'' (JStr ''0'') = JStr ''1'') = (dict_get d ''keyed'' = JStr ''1'')"
    by (simp add: dict_get_default_def dict_get_def split: option.splits)
  from assms show ?thesis
    by (auto simp: make_placemark_def icon_href_def same Let_def split: sum.splits if_splits)
qed

text \<open>
  The integer 1 and the strings \<open>"true"\<close> and \<open>"yes"\<close> are not \<open>"1"\<close>: an hour-old node
  so keyed is red and reads \<open>No\<close>; with \<open>"1"\<close> it is yellow and reads \<open>Yes\<close>.
\<close>

theorem keyed_exactly_one_witness:
  "make_placemark sample_lib 1700000000000000
     [(''latitude'', JInt 1), (''longitude'', JInt 2), (''keyed'', JInt 1), (''time'', JInt 1699996400)]
     = Inr \<lparr> pm_name = JStr ''Unnamed'', pm_description = JStr [],
               pm_styleUrl = ''#repeaterStyle'', pm_scale = ''1.2'',
               pm_href = ICON_RED,
               pm_lastReport = ''2023-11-14 21:13:20 UTC'', pm_keyed = ''No'',
               pm_coordinates = ''2,1,0'' \<rparr>
   \<and> dict_get [(''latitude'', JInt 1), (''longitude'', JInt 2), (''keyed'', JInt 1),
                (''time'', JInt 1699996400)] ''keyed'' \<noteq> JStr ''1''
   \<and> JStr ''true'' \<noteq> JStr ''1'' \<and> JStr ''yes'' \<noteq> JStr ''1''
   \<and> dict_get (node_dict node_R1) ''keyed'' = JStr ''1''
   \<and> make_placemark sample_lib 1700000000000000 (node_dict node_R1) = Inr pm_R1
   \<and> pm_href pm_R1 = ICON_YELLOW \<and> pm_keyed pm_R1 = ''Yes''"
proof -
  let ?d = "[(''latitude'', JInt 1), (''longitude'', JInt 2), (''keyed'', JInt 1),
             (''time'', JInt 1699996400)]"
  let ?pm = "\<lparr> pm_name = JStr ''Unnamed'', pm_description = JStr [],
               pm_styleUrl = ''#repeaterStyle'', pm_scale = ''1.2'',
               pm_href = ICON_RED,
               pm_lastReport = ''2023-11-14 21:13:20 UTC'', pm_keyed = ''No'',
               pm_coordinates = ''2,1,0'' \<rparr>"
  have a: "make_placemark sample_lib 1700000000000000 ?d = Inr ?pm"
    by code_simp
  have b: "make_placemark sample_lib 1700000000000000 (node_dict node_R1) = Inr pm_R1"
    by code_simp
  have c: "dict_get ?d ''keyed'' \<noteq> JStr ''1''"
    by (simp add: dict_get_def)
  have d: "dict_get (node_dict node_R1) ''keyed'' = JStr ''1''"
    by (simp add: dict_get_def node_R1_def)
  from keyed_exactly_one [OF a] keyed_exactly_one [OF b] a b c d
  show ?thesis by simp
qed

section \<open>Which records get a placemark, and in which order (C2, C6, C8, C9)\<close>

text \<open>
  C2. Whenever \<open>build_kml\<close> returns a document for a sequence of nodes, the number of
  its placemarks is the number of nodes that pass both \<open>continue\<close> tests; and when
  \<open>hidden\<close> is a boolean or absent in every node, as in the specification's record,
  that is the number of nodes whose \<open>hidden\<close> is not \<open>true\<close> and whose latitude and
  longitude are both present. The other records emit no placemark.
\<close>

theorem build_kml_placemark_count:
  assumes "build_kml py clk (JArr nodes) = Inr doc"
  shows "length (placemarks doc) = length (filter qualifies nodes)
         \<and> (list_all hidden_is_boolean nodes \<longrightarrow>
              length (placemarks doc) = length (filter visible_with_coordinates nodes))"
proof -
  have len: "length (placemarks doc) = length (filter qualifies nodes)"
    using build_placemarks_length [OF build_kml_JArr [OF assms]] .
  have "filter qualifies nodes = filter visible_with_coordinates nodes"
    if "list_all hidden_is_boolean nodes"
    using that by (intro filter_cong) (auto simp: list_all_iff qualifies_boolean)
  with len show ?thesis by simp
qed

text \<open>
  The five sample nodes: R3 is hidden, R4 has no coordinates, the other three get a
  placemark.
\<close>

theorem build_kml_placemark_count_witness:
  "build_kml sample_lib sample_clock (JArr sample_nodes) = Inr sample_doc
   \<and> list_all hidden_is_boolean sample_nodes
   \<and> length (placemarks sample_doc) = 3
   \<and> length (filter visible_with_coordinates sample_nodes) = 3
   \<and> length sample_nodes = 5"
proof -
  have five: "length sample_nodes = 5"
    by (simp add: sample_nodes_def)
  from build_kml_placemark_count [OF sample_build] sample_build sample_booleans five
  show ?thesis by (simp add: sample_visible)
qed

text \<open>
  C6. Whenever \<open>build_kml\<close> returns a document, its placemarks are, one for one and in
  the same order, the placemarks built from the qualifying nodes in the order in which
  these stand in the input; the \<open>i\<close>-th of them is built with the \<open>i\<close>-th clock read.
\<close>

theorem build_kml_order:
  assumes "build_kml py clk (JArr nodes) = Inr doc"
  shows "map Inr (placemarks doc) =
           map (\<lambda>(i, n). make_placemark py (clk i) (node_dict n))
               (enumerate 0 (filter qualifies nodes))"
  using build_placemarks_enumerate [OF build_kml_JArr [OF assms]] .

theorem build_kml_order_witness:
  "build_kml sample_lib sample_clock (JArr sample_nodes) = Inr sample_doc
   \<and> filter qualifies sample_nodes = [node_R1, node_R2, node_bare]
   \<and> map Inr (placemarks sample_doc) =
       [make_placemark sample_lib (sample_clock 0) (node_dict node_R1),
        make_placemark sample_lib (sample_clock (Suc 0)) (node_dict node_R2),
        make_placemark sample_lib (sample_clock (Suc (Suc 0))) (node_dict node_bare)]
   \<and> map pm_name (placemarks sample_doc) = [JStr ''R1'', JStr ''R2'', JStr ''Unnamed'']"
proof -
  have names: "map pm_name (placemarks sample_doc) = [JStr ''R1'', JStr ''R2'', JStr ''Unnamed'']"
    by (simp add: sample_doc_def pm_R1_def pm_R2_def pm_bare_def)
  from build_kml_order [OF sample_build] sample_build names
  show ?thesis by (simp add: sample_qualifying enumerate_eq_zip upt_rec)
qed

text \<open>
  C8. In every document \<open>build_kml\<close> returns, the coordinates text of each placemark is
  the longitude of its node, a comma, the latitude, a comma and \<open>0\<close>, each number as
  an f-string field renders it.
\<close>

theorem build_kml_coordinates:
  assumes "build_kml py clk (JArr nodes) = Inr doc"
  shows "map pm_coordinates (placemarks doc) =
           map (\<lambda>n. py_format py (dict_get (node_dict n) ''longitude'') @ '','' @
                     py_format py (dict_get (node_dict n) ''latitude'') @ '',0'')
               (filter qualifies nodes)"
proof -
  let ?en = "enumerate 0 (filter qualifies nodes)"
  let ?c = "\<lambda>n. py_format py (dict_get (node_dict n) ''longitude'') @ '','' @
                     py_format py (dict_get (node_dict n) ''latitude'') @ '',0''"
  have eq: "map Inr (placemarks doc) = map (\<lambda>(i, n). make_placemark py (clk i) (node_dict n)) ?en"
    using build_placemarks_enumerate [OF build_kml_JArr [OF assms]] .
  have len: "length (placemarks doc) = length (filter qualifies nodes)"
    using arg_cong [OF eq, of length] by simp
  show ?thesis
  proof (rule nth_equalityI)
    show "length (map pm_coordinates (placemarks doc)) = length (map ?c (filter qualifies nodes))"
      using len by simp
  next
    fix i assume "i < length (map pm_coordinates (placemarks doc))"
    then have i: "i < length (filter qualifies nodes)" using len by simp
    have "map Inr (placemarks doc) ! i = (map (\<lambda>(i, n). make_placemark py (clk i) (node_dict n)) ?en) ! i"
      using eq by simp
    with i len have "make_placemark py (clk i) (node_dict (filter qualifies nodes ! i)) = Inr (placemarks doc ! i)"
      by (simp add: nth_enumerate_eq)
    from make_placemark_coordinates [OF this] i len
    show "map pm_coordinates (placemarks doc) ! i = map ?c (filter qualifies nodes) ! i"
      by simp
  qed
qed

theorem build_kml_coordinates_witness:
  "build_kml sample_lib sample_clock (JArr sample_nodes) = Inr sample_doc
   \<and> map pm_coordinates (placemarks sample_doc) =
       [''-105.0,40.0,0'', ''-105.0,40.0,0'', ''-105,40,0'']
   \<and> map (\<lambda>n. py_format sample_lib (dict_get (node_dict n) ''longitude'') @ '','' @
               py_format sample_lib (dict_get (node_dict n) ''latitude'') @ '',0'')
         (filter qualifies sample_nodes) =
       [''-105.0,40.0,0'', ''-105.0,40.0,0'', ''-105,40,0'']"
proof -
  have c: "map pm_coordinates (placemarks sample_doc) =
       [''-105.0,40.0,0'', ''-105.0,40.0,0'', ''-105,40,0'']"
    by (simp add: sample_doc_def pm_R1_def pm_R2_def pm_bare_def)
  from build_kml_coordinates [OF sample_build] sample_build c
  show ?thesis by simp
qed

text \<open>
  C9. A record is left out by the truth value of its \<open>hidden\<close> field: when the value
  is truthy the document is the one built without the record; when it is falsy and both
  coordinates are present, the record has its placemark in any document that is built,
  at the position of the qualifying records before it. Truthy are \<open>true\<close>, a nonzero
  number, a nonempty string (\<open>"false"\<close> too), a nonempty list or dict; falsy are an
  absent field, \<open>null\<close>, \<open>false\<close>, zero and the empty string, list and dict.
\<close>

theorem hidden_truthiness:
  "(truthy (dict_get d ''hidden'') \<longrightarrow>
      build_kml py clk (JArr (pre @ JObj d # post)) = build_kml py clk (JArr (pre @ post)))
   \<and> (\<not> truthy (dict_get d ''hidden'')
        \<and> dict_get d ''latitude'' \<noteq> JNull \<and> dict_get d ''longitude'' \<noteq> JNull
        \<and> build_kml py clk (JArr (pre @ JObj d # post)) = Inr doc \<longrightarrow>
      length (filter qualifies pre) < length (placemarks doc)
      \<and> make_placemark py (clk (length (filter qualifies pre))) d =
          Inr (placemarks doc ! length (filter qualifies pre)))
   \<and> (truthy (dict_get d ''hidden'') \<longleftrightarrow>
        (case map_of d ''hidden'' of
           None \<Rightarrow> False
         | Some JNull \<Rightarrow> False
         | Some (JBool b) \<Rightarrow> b
         | Some (JInt n) \<Rightarrow> n \<noteq> 0
         | Some (JFloat f) \<Rightarrow> float_truth f
         | Some (JStr s) \<Rightarrow> s \<noteq> []
         | Some (JArr xs) \<Rightarrow> xs \<noteq> []
         | Some (JObj kvs) \<Rightarrow> kvs \<noteq> []))"
proof (intro conjI impI)
  assume "truthy (dict_get d ''hidden'')"
  then have "\<not> qualifies (JObj d)" by simp
  from build_placemarks_skip [OF this]
  show "build_kml py clk (JArr (pre @ JObj d # post)) = build_kml py clk (JArr (pre @ post))"
    by (simp add: build_kml_def)
next
  assume a: "\<not> truthy (dict_get d ''hidden'')
        \<and> dict_get d ''latitude'' \<noteq> JNull \<and> dict_get d ''longitude'' \<noteq> JNull
        \<and> build_kml py clk (JArr (pre @ JObj d # post)) = Inr doc"
  let ?m = "length (filter qualifies pre)"
  let ?q = "filter qualifies (pre @ JObj d # post)"
  from a have q: "qualifies (JObj d)" by simp
  from a have b: "build_kml py clk (JArr (pre @ JObj d # post)) = Inr doc" by simp
  have eq: "map Inr (placemarks doc) =
              map (\<lambda>(i, n). make_placemark py (clk i) (node_dict n)) (enumerate 0 ?q)"
    using build_placemarks_enumerate [OF build_kml_JArr [OF b]] .
  have len: "length (placemarks doc) = length ?q"
    using arg_cong [OF eq, of length] by simp
  have m: "?m < length ?q" using q by simp
  with len show "?m < length (placemarks doc)" by simp
  have nth: "?q ! ?m = JObj d" using q by (simp add: nth_append)
  have "map Inr (placemarks doc) ! ?m =
          map (\<lambda>(i, n). make_placemark py (clk i) (node_dict n)) (enumerate 0 ?q) ! ?m"
    using eq by simp
  with m len nth show "make_placemark py (clk ?m) d = Inr (placemarks doc ! ?m)"
    by (simp add: nth_enumerate_eq)
next
  show "truthy (dict_get d ''hidden'') \<longleftrightarrow>
        (case map_of d ''hidden'' of
           None \<Rightarrow> False
         | Some JNull \<Rightarrow> False
         | Some (JBool b) \<Rightarrow> b
         | Some (JInt n) \<Rightarrow> n \<noteq> 0
         | Some (JFloat f) \<Rightarrow> float_truth f
         | Some (JStr s) \<Rightarrow> s \<noteq> []
         | Some (JArr xs) \<Rightarrow> xs \<noteq> []
         | Some (JObj kvs) \<Rightarrow> kvs \<noteq> [])"
    by (simp add: dict_get_def split: option.splits json.splits)
qed

text \<open>
  Between R1 and R2, a node hidden by the string \<open>"false"\<close>, by the number 7 or by a
  one-element list changes nothing; the node without a \<open>hidden\<close> field, last of the
  sample nodes, has the third placemark; \<open>hidden = 0\<close> is falsy.
\<close>

theorem hidden_truthiness_witness:
  "truthy (dict_get (node_dict node_hidden_string) ''hidden'')
   \<and> build_kml sample_lib sample_clock (JArr ([node_R1] @ node_hidden_string # [node_R2])) =
       build_kml sample_lib sample_clock (JArr ([node_R1] @ [node_R2]))
   \<and> truthy (dict_get (node_dict node_hidden_number) ''hidden'')
   \<and> build_kml sample_lib sample_clock (JArr ([node_R1] @ node_hidden_number # [node_R2])) =
       build_kml sample_lib sample_clock (JArr ([node_R1] @ [node_R2]))
   \<and> truthy (dict_get (node_dict node_hidden_list) ''hidden'')
   \<and> build_kml sample_lib sample_clock (JArr ([node_R1] @ node_hidden_list # [node_R2])) =
       build_kml sample_lib sample_clock (JArr ([node_R1] @ [node_R2]))
   \<and> \<not> truthy (dict_get (node_dict node_bare) ''hidden'')
   \<and> dict_get (node_dict node_bare) ''latitude'' \<noteq> JNull
   \<and> dict_get (node_dict node_bare) ''longitude'' \<noteq> JNull
   \<and> build_kml sample_lib sample_clock
        (JArr ([node_R1, node_R2, node_R3, node_R4] @ node_bare # [])) = Inr sample_doc
   \<and> make_placemark sample_lib (sample_clock 2) (node_dict node_bare) = Inr (placemarks sample_doc ! 2)
   \<and> placemarks sample_doc ! 2 = pm_bare
   \<and> \<not> truthy (dict_get (node_dict node_hidden_zero) ''hidden'')"
proof -
  have s: "JObj (node_dict node_hidden_string) = node_hidden_string"
    and n: "JObj (node_dict node_hidden_number) = node_hidden_number"
    and l: "JObj (node_dict node_hidden_list) = node_hidden_list"
    and b: "JObj (node_dict node_bare) = node_bare"
    by (simp_all add: node_hidden_string_def node_hidden_number_def node_hidden_list_def
          node_bare_def)
  have ts: "truthy (dict_get (node_dict node_hidden_string) ''hidden'')"
    and tn: "truthy (dict_get (node_dict node_hidden_number) ''hidden'')"
    and tl: "truthy (dict_get (node_dict node_hidden_list) ''hidden'')"
    and tz: "\<not> truthy (dict_get (node_dict node_hidden_zero) ''hidden'')"
    by (simp_all add: node_hidden_string_def node_hidden_number_def node_hidden_list_def
          node_hidden_zero_def dict_get_def)
  have fb: "\<not> truthy (dict_get (node_dict node_bare) ''hidden'')"
    and lat: "dict_get (node_dict node_bare) ''latitude'' \<noteq> JNull"
    and lon: "dict_get (node_dict node_bare) ''longitude'' \<noteq> JNull"
    by (simp_all add: node_bare_def dict_get_def)
  have built: "build_kml sample_lib sample_clock
        (JArr ([node_R1, node_R2, node_R3, node_R4] @ JObj (node_dict node_bare) # [])) = Inr sample_doc"
    using sample_build by (simp add: sample_nodes_def b)
  have two: "length (filter qualifies [node_R1, node_R2, node_R3, node_R4]) = 2"
    by code_simp
  have third: "placemarks sample_doc ! 2 = pm_bare"
    by (simp add: sample_doc_def)
  from hidden_truthiness [of "node_dict node_hidden_string" sample_lib sample_clock "[node_R1]" "[node_R2]"]
       hidden_truthiness [of "node_dict node_hidden_number" sample_lib sample_clock "[node_R1]" "[node_R2]"]
       hidden_truthiness [of "node_dict node_hidden_list" sample_lib sample_clock "[node_R1]" "[node_R2]"]
       hidden_truthiness [of "node_dict node_bare" sample_lib sample_clock
          "[node_R1, node_R2, node_R3, node_R4]" "[]" sample_doc]
       ts tn tl tz fb lat lon built third
  show ?thesis
    unfolding s n l b two by simp
qed

section \<open>The defaults (C7)\<close>

lemma map_of_set_default:
  "map_of (set_default d k v) k' = (if k' = k \<and> map_of d k = None then Some v else map_of d k')"
  by (auto simp: set_default_def map_add_def split: option.splits)

lemma dict_get_default_set_default:
  "dict_get_default (set_default d k v) k' dflt =
     (if k' = k \<and> map_of d k = None then v else dict_get_default d k' dflt)"
  by (simp add: dict_get_default_def map_of_set_default)

lemma dict_get_set_default:
  "dict_get (set_default d k v) k' =
     (if k' = k \<and> map_of d k = None then v else dict_get d k')"
  by (simp add: dict_get_def map_of_set_default)

lemma make_placemark_with_defaults:
  "make_placemark py now (with_defaults d) = make_placemark py now d"
proof -
  have keyed: "dict_get_default (with_defaults d) ''keyed'' (JStr ''0'') = dict_get_default d ''keyed'' (JStr ''0'')"
    by (simp add: with_defaults_def dict_get_default_set_default map_of_set_default)
       (simp add: dict_get_default_def)
  have time: "dict_get_default (with_defaults d) ''time'' (JInt 0) = dict_get_default d ''time'' (JInt 0)"
    by (simp add: with_defaults_def dict_get_default_set_default map_of_set_default)
       (simp add: dict_get_default_def)
  have name: "dict_get_default (with_defaults d) ''name'' (JStr ''Unnamed'') = dict_get_default d ''name'' (JStr ''Unnamed'')"
    by (simp add: with_defaults_def dict_get_default_set_default map_of_set_default)
       (simp add: dict_get_default_def)
  have descr: "dict_get_default (with_defaults d) ''description'' (JStr []) = dict_get_default d ''description'' (JStr [])"
    by (simp add: with_defaults_def dict_get_default_set_default map_of_set_default)
       (simp add: dict_get_default_def)
  have lat: "dict_get (with_defaults d) ''latitude'' = dict_get d ''latitude''"
    by (simp add: with_defaults_def dict_get_set_default)
  have lon: "dict_get (with_defaults d) ''longitude'' = dict_get d ''longitude''"
    by (simp add: with_defaults_def dict_get_set_default)
  have yes: "(dict_get (with_defaults d) ''keyed'' = JStr ''1'') = (dict_get d ''keyed'' = JStr ''1'')"
    by (simp add: with_defaults_def dict_get_set_default map_of_set_default)
       (simp add: dict_get_def)
  show ?thesis
    unfolding make_placemark_def keyed time name descr lat lon yes ..
qed

lemma make_placemark_no_time:
  assumes "map_of d ''time'' = None"
  shows "\<exists>pm. make_placemark py now d = Inr pm"
proof -
  have "time_ok (JObj d)"
    using assms by (simp add: time_ok_def dict_get_default_def MIN_TIMESTAMP_def MAX_TIMESTAMP_def)
  then show ?thesis by (rule make_placemark_returns)
qed

lemma make_placemark_fields:
  assumes "make_placemark py now d = Inr pm"
  shows "pm_name pm = dict_get_default d ''name'' (JStr ''Unnamed'')"
    and "pm_description pm = dict_get_default d ''description'' (JStr [])"
    and "icon_href now (dict_get_default d ''keyed'' (JStr ''0''))
           (dict_get_default d ''time'' (JInt 0)) = Inr (pm_href pm)"
    and "fmt_time py (dict_get_default d ''time'' (JInt 0)) = Inr (pm_lastReport pm)"
    and "pm_keyed pm = (if dict_get d ''keyed'' = JStr ''1'' then ''Yes'' else ''No'')"
  using assms by (auto simp: make_placemark_def Let_def split: sum.splits)

text \<open>
  C7. In the placemark built from a node, a field the node lacks has its default: a
  missing \<open>name\<close> gives the text \<open>"Unnamed"\<close> and a missing \<open>description\<close> the empty
  string, while a field that is there gives its own value; a missing \<open>time\<close> is the
  time 0, so that the last report reads as the epoch and the icon is that of a last
  report at 0; a missing \<open>keyed\<close> is \<open>"0"\<close>, so that the field reads \<open>No\<close> and the
  icon is what the staleness test gives. A node without \<open>time\<close> always gets its
  placemark. Altogether, \<open>make_placemark\<close> gives the same result, placemark or
  exception, on the node and on the node with the four defaults put in.
\<close>

theorem make_placemark_defaults:
  "make_placemark py now (with_defaults d) = make_placemark py now d
   \<and> (map_of d ''time'' = None \<longrightarrow> (\<exists>pm'. make_placemark py now d = Inr pm'))
   \<and> (make_placemark py now d = Inr pm \<longrightarrow>
        (map_of d ''name'' = None \<longrightarrow> pm_name pm = JStr ''Unnamed'')
      \<and> (map_of d ''name'' = Some v \<longrightarrow> pm_name pm = v)
      \<and> (map_of d ''description'' = None \<longrightarrow> pm_description pm = JStr [])
      \<and> (map_of d ''description'' = Some v \<longrightarrow> pm_description pm = v)
      \<and> (map_of d ''time'' = None \<longrightarrow>
            pm_lastReport pm = py_strftime py 0
            \<and> pm_href pm =
                (if map_of d ''keyed'' = Some (JStr ''1'') then ICON_YELLOW
                 else if now > 5 * 60 * 1000000 then ICON_RED
                 else ICON_GREEN))
      \<and> (map_of d ''keyed'' = None \<longrightarrow>
            pm_keyed pm = ''No''
            \<and> (\<exists>dt. fromtimestamp (dict_get_default d ''time'' (JInt 0)) = Inr dt
                 \<and> pm_href pm = (if now - dt > 5 * 60 * 1000000 then ICON_RED else ICON_GREEN))))"
proof (intro conjI impI)
  show "make_placemark py now (with_defaults d) = make_placemark py now d"
    by (rule make_placemark_with_defaults)
next
  assume "map_of d ''time'' = None"
  then show "\<exists>pm'. make_placemark py now d = Inr pm'"
    by (rule make_placemark_no_time)
next
  assume "make_placemark py now d = Inr pm" and "map_of d ''name'' = None"
  then show "pm_name pm = JStr ''Unnamed''"
    by (simp add: make_placemark_fields(1) dict_get_default_def)
next
  assume "make_placemark py now d = Inr pm" and "map_of d ''name'' = Some v"
  then show "pm_name pm = v"
    by (simp add: make_placemark_fields(1) dict_get_default_def)
next
  assume "make_placemark py now d = Inr pm" and "map_of d ''description'' = None"
  then show "pm_description pm = JStr []"
    by (simp add: make_placemark_fields(2) dict_get_default_def)
next
  assume "make_placemark py now d = Inr pm" and "map_of d ''description'' = Some v"
  then show "pm_description pm = v"
    by (simp add: make_placemark_fields(2) dict_get_default_def)
next
  assume m: "make_placemark py now d = Inr pm" and t: "map_of d ''time'' = None"
  from make_placemark_fields(4) [OF m] t
  show "pm_lastReport pm = py_strftime py 0"
    by (simp add: dict_get_default_def fmt_time_def MIN_TIMESTAMP_def MAX_TIMESTAMP_def)
next
  assume m: "make_placemark py now d = Inr pm" and t: "map_of d ''time'' = None"
  have k: "(dict_get_default d ''keyed'' (JStr ''0'') = JStr ''1'') =
           (map_of d ''keyed'' = Some (JStr ''1''))"
    by (simp add: dict_get_default_def split: option.splits)
  from make_placemark_fields(3) [OF m] t k
  show "pm_href pm =
          (if map_of d ''keyed'' = Some (JStr ''1'') then ICON_YELLOW
           else if now > 5 * 60 * 1000000 then ICON_RED
           else ICON_GREEN)"
    by (auto simp: dict_get_default_def icon_href_def FIVE_MINUTES_def
          MIN_TIMESTAMP_def MAX_TIMESTAMP_def split: if_splits)
next
  assume m: "make_placemark py now d = Inr pm" and k: "map_of d ''keyed'' = None"
  from make_placemark_fields(5) [OF m] k
  show "pm_keyed pm = ''No''"
    by (simp add: dict_get_def)
next
  assume m: "make_placemark py now d = Inr pm" and k: "map_of d ''keyed'' = None"
  from make_placemark_fields(3) [OF m] k
  show "\<exists>dt. fromtimestamp (dict_get_default d ''time'' (JInt 0)) = Inr dt
          \<and> pm_href pm = (if now - dt > 5 * 60 * 1000000 then ICON_RED else ICON_GREEN)"
    by (auto simp: dict_get_default_def icon_href_def FIVE_MINUTES_def Let_def
          split: sum.splits if_splits)
qed

text \<open>
  The node with coordinates only lacks all four fields: its placemark is named
  \<open>Unnamed\<close>, has an empty description, was last reported at the epoch, reads \<open>No\<close>
  and is stale in 2023, red, but green when the clock stands 100 seconds after the
  epoch. R1 has a name and no description.
\<close>

theorem make_placemark_defaults_witness:
  "map_of (node_dict node_bare) ''name'' = None
   \<and> map_of (node_dict node_bare) ''description'' = None
   \<and> map_of (node_dict node_bare) ''time'' = None
   \<and> map_of (node_dict node_bare) ''keyed'' = None
   \<and> make_placemark sample_lib (sample_clock 2) (node_dict node_bare) = Inr pm_bare
   \<and> pm_name pm_bare = JStr ''Unnamed''
   \<and> pm_description pm_bare = JStr []
   \<and> pm_lastReport pm_bare = py_strftime sample_lib 0
   \<and> py_strftime sample_lib 0 = ''1970-01-01 00:00:00 UTC''
   \<and> pm_keyed pm_bare = ''No''
   \<and> pm_href pm_bare = ICON_RED
   \<and> make_placemark sample_lib 100000000 (node_dict node_bare) =
       Inr (pm_bare\<lparr>pm_href := ICON_GREEN\<rparr>)
   \<and> pm_href (pm_bare\<lparr>pm_href := ICON_GREEN\<rparr>) = ICON_GREEN
   \<and> map_of (node_dict node_R1) ''name'' = Some (JStr ''R1'')
   \<and> map_of (node_dict node_R1) ''description'' = None
   \<and> make_placemark sample_lib (sample_clock 0) (node_dict node_R1) = Inr pm_R1
   \<and> pm_name pm_R1 = JStr ''R1''
   \<and> pm_description pm_R1 = JStr []
   \<and> with_defaults (node_dict node_bare) =
       [(''latitude'', JInt 40), (''longitude'', JInt (- 105)), (''keyed'', JStr ''0''),
        (''time'', JInt 0), (''name'', JStr ''Unnamed''), (''description'', JStr [])]
   \<and> make_placemark sample_lib (sample_clock 2) (with_defaults (node_dict node_bare)) =
       Inr pm_bare"
proof -
  have none: "map_of (node_dict node_bare) ''name'' = None"
    "map_of (node_dict node_bare) ''description'' = None"
    "map_of (node_dict node_bare) ''time'' = None"
    "map_of (node_dict node_bare) ''keyed'' = None"
    by (simp_all add: node_bare_def)
  have r1: "map_of (node_dict node_R1) ''name'' = Some (JStr ''R1'')"
    "map_of (node_dict node_R1) ''description'' = None"
    by (simp_all add: node_R1_def)
  have late: "make_placemark sample_lib (sample_clock 2) (node_dict node_bare) = Inr pm_bare"
    by code_simp
  have early: "make_placemark sample_lib 100000000 (node_dict node_bare) =
       Inr (pm_bare\<lparr>pm_href := ICON_GREEN\<rparr>)"
    by code_simp
  have first: "make_placemark sample_lib (sample_clock 0) (node_dict node_R1) = Inr pm_R1"
    by code_simp
  have epoch: "py_strftime sample_lib 0 = ''1970-01-01 00:00:00 UTC''"
    by code_simp
  have w: "with_defaults (node_dict node_bare) =
     [(''latitude'', JInt 40), (''longitude'', JInt (- 105)), (''keyed'', JStr ''0''),
      (''time'', JInt 0), (''name'', JStr ''Unnamed''), (''description'', JStr [])]"
    by code_simp
  have clock: "sample_clock 2 > 5 * 60 * 1000000" "\<not> (100000000 :: int) > 5 * 60 * 1000000"
    by (simp_all add: sample_clock_def sample_now_def)
  from make_placemark_defaults [where py = sample_lib and now = "sample_clock 2"
         and d = "node_dict node_bare" and pm = pm_bare]
       make_placemark_defaults [where py = sample_lib and now = 100000000
         and d = "node_dict node_bare" and pm = "pm_bare\<lparr>pm_href := ICON_GREEN\<rparr>"]
       make_placemark_defaults [where py = sample_lib and now = "sample_clock 0"
         and d = "node_dict node_R1" and pm = pm_R1 and v = "JStr ''R1''"]
       none r1 late early first epoch w clock
  show ?thesis by simp
qed

section \<open>The clock (C3)\<close>

text \<open>
  C3, as the code has it. \<open>build_kml\<close> takes the records only: \<open>icon_href\<close> reads the
  clock itself, once for each placemark. Two builds of the same record sequence give
  the same result whenever the clock returns the same values at the reads the builds
  make, one for each qualifying record; the reads are the only way the time enters.
\<close>

theorem build_kml_clock_reads:
  assumes "\<forall>i < length (filter qualifies nodes). clk1 i = clk2 i"
  shows "build_kml py clk1 (JArr nodes) = build_kml py clk2 (JArr nodes)"
proof -
  have "build_placemarks py clk1 0 nodes = build_placemarks py clk2 0 nodes"
    by (rule build_placemarks_clock) (use assms in simp)
  then show ?thesis by (simp add: build_kml_def)
qed

text \<open>
  The sample nodes make three reads; a clock that differs from the fourth read on
  gives the same document.
\<close>

theorem build_kml_clock_reads_witness:
  "length (filter qualifies sample_nodes) = 3
   \<and> sample_clock 0 = clock_then_zero 0
   \<and> sample_clock 1 = clock_then_zero 1
   \<and> sample_clock 2 = clock_then_zero 2
   \<and> build_kml sample_lib sample_clock (JArr sample_nodes) =
       build_kml sample_lib clock_then_zero (JArr sample_nodes)
   \<and> sample_clock 3 \<noteq> clock_then_zero 3"
proof -
  have three: "length (filter qualifies sample_nodes) = 3"
    by (simp add: sample_qualifying)
  have h: "\<forall>i < length (filter qualifies sample_nodes). sample_clock i = clock_then_zero i"
    by (simp add: sample_qualifying clock_then_zero_def)
  have e: "sample_clock 0 = clock_then_zero 0" "sample_clock 1 = clock_then_zero 1"
    "sample_clock 2 = clock_then_zero 2"
    by (simp_all add: clock_then_zero_def)
  have d: "sample_clock 3 \<noteq> clock_then_zero 3"
    by (simp add: clock_then_zero_def sample_clock_def sample_now_def)
  from build_kml_clock_reads [OF h] three e d show ?thesis by simp
qed

text \<open>
  The same one record, built when the clock stands at its last report and built 301
  seconds later, gives two different documents: the caller of \<open>build_kml\<close> has no
  \<open>now\<close> to hold fixed.
\<close>

theorem build_kml_clock_counterexample:
  "build_kml sample_lib (\<lambda>k. 1700000000000000) (JArr [node_R5])
     \<noteq> build_kml sample_lib (\<lambda>k. 1700000301000000) (JArr [node_R5])"
  by code_simp

section \<open>A failed cycle (C4)\<close>

lemma py_len_build_kml:
  "py_len nodes = Inl e \<Longrightarrow> build_kml py clk nodes = Inl e"
  by (cases nodes) (simp_all add: build_kml_def)

lemma update_try_fetch_failed:
  "update_try py (Inl e) clk w = (Some e, w\<lparr>out_log := out_log w @ [LogFetching]\<rparr>)"
  by (simp add: update_try_def)

lemma update_try_build_failed:
  assumes "build_kml py clk nodes = Inl e"
  shows "\<exists>w'. update_try py (Inr nodes) clk w = (Some e, w') \<and> out_file w' = out_file w"
proof (cases "py_len nodes")
  case (Inl e')
  from py_len_build_kml [OF this, of py clk] assms have "e' = e" by simp
  with Inl show ?thesis by (simp add: update_try_def)
next
  case (Inr n)
  with assms show ?thesis by (simp add: update_try_def Let_def)
qed

lemma update_kml_timer:
  "snd (update_kml py fetched clk w) = [UPDATE_INTERVAL]"
  by (simp add: update_kml_def split: prod.splits option.splits)

text \<open>
  C4. When \<open>fetch_nodes\<close> or \<open>build_kml\<close> raises in a cycle, the output file is after
  the cycle what it was before (absent if it was absent), and the exception stops at
  the handler: it is printed, and \<open>update_kml\<close> goes on to start the next timer.
\<close>

theorem update_kml_failure_keeps_file:
  assumes "fetched = Inl e \<or> (\<exists>nodes. fetched = Inr nodes \<and> build_kml py clk nodes = Inl e)"
  shows "out_file (fst (update_kml py fetched clk w)) = out_file w
       \<and> last (out_log (fst (update_kml py fetched clk w))) = LogError e
       \<and> snd (update_kml py fetched clk w) = [UPDATE_INTERVAL]"
proof -
  have "\<exists>w'. update_try py fetched clk w = (Some e, w') \<and> out_file w' = out_file w"
    using assms update_try_build_failed [of py clk _ e w]
    by (auto simp: update_try_fetch_failed)
  then obtain w' where "update_try py fetched clk w = (Some e, w')" "out_file w' = out_file w"
    by blast
  then show ?thesis by (simp add: update_kml_def)
qed

text \<open>
  A failed fetch and a failed build (a node in the year 10000) leave the document of an
  earlier cycle in place; a failed fetch in the first cycle leaves no file.
\<close>

theorem update_kml_failure_keeps_file_witness:
  "out_file (fst (update_kml sample_lib (Inl FetchError) sample_clock world1)) =
     Some (Complete sample_doc)
   \<and> build_kml sample_lib sample_clock (JArr [node_year10000]) = Inl OutOfRange
   \<and> out_file (fst (update_kml sample_lib (Inr (JArr [node_year10000])) sample_clock world1)) =
       Some (Complete sample_doc)
   \<and> out_file (fst (update_kml sample_lib (Inl FetchError) sample_clock world0)) = None
   \<and> snd (update_kml sample_lib (Inl FetchError) sample_clock world0) = [300]"
proof -
  have b: "build_kml sample_lib sample_clock (JArr [node_year10000]) = Inl OutOfRange"
    by code_simp
  have f: "(Inl FetchError :: error + json) = Inl FetchError
           \<or> (\<exists>nodes. (Inl FetchError :: error + json) = Inr nodes
                \<and> build_kml sample_lib sample_clock nodes = Inl FetchError)"
    by simp
  have g: "(Inr (JArr [node_year10000]) :: error + json) = Inl OutOfRange
           \<or> (\<exists>nodes. (Inr (JArr [node_year10000]) :: error + json) = Inr nodes
                \<and> build_kml sample_lib sample_clock nodes = Inl OutOfRange)"
    using b by simp
  from update_kml_failure_keeps_file [OF f, of world1]
       update_kml_failure_keeps_file [OF g, of world1]
       update_kml_failure_keeps_file [OF f, of world0] b
  show ?thesis by (simp add: world1_def world0_def UPDATE_INTERVAL_def)
qed

section \<open>One cycle at a time (C5)\<close>

lemma spaced_snoc:
  "spaced g (cs @ [c]) \<longleftrightarrow>
     fst c \<le> snd c \<and> (cs = [] \<or> (spaced g cs \<and> snd (last cs) + g \<le> fst c))"
proof (induction g cs rule: spaced.induct)
  case (1 gap)
  show ?case by simp
next
  case (2 gap c')
  show ?case by auto
next
  case (3 gap c1 c2 cs)
  then show ?case by auto
qed

lemma step_cycle_inv:
  assumes "cycle_inv p" and "step py ev p = Some p'"
  shows "cycle_inv p'"
proof (cases ev)
  case (Tick dt)
  with assms(2) have p': "p' = p\<lparr>p_time := p_time p + dt\<rparr>" by simp
  show ?thesis
  proof (cases "p_running p")
    case Nil
    with assms(1) show ?thesis
      by (auto simp: cycle_inv_def p' list_all_iff)
  next
    case (Cons t ts)
    with assms(1) have ts: "ts = []" by (auto simp: cycle_inv_def split: list.splits)
    with Cons assms(1) show ?thesis
      by (auto simp: cycle_inv_def p' list_all_iff spaced_snoc)
  qed
next
  case (Fire due)
  with assms(2) have due: "due \<in> set (p_timers p)" "due \<le> p_time p"
    and p': "p' = p\<lparr>p_timers := remove1 due (p_timers p), p_running := p_running p @ [p_time p]\<rparr>"
    by (auto split: if_splits)
  show ?thesis
  proof (cases "p_running p")
    case Nil
    with assms(1) due show ?thesis
      by (auto simp: cycle_inv_def p' spaced_snoc)
  next
    case (Cons t ts)
    with assms(1) due show ?thesis
      by (auto simp: cycle_inv_def split: list.splits)
  qed
next
  case (Finish began fetched clk)
  with assms(2) have began: "began \<in> set (p_running p)"
    by (auto split: if_splits)
  obtain w' where u: "update_kml py fetched clk (p_world p) = (w', [UPDATE_INTERVAL])"
    using update_kml_timer [of py fetched clk "p_world p"]
    by (cases "update_kml py fetched clk (p_world p)") simp
  with assms(2) Finish began have
    p': "p' = p\<lparr>p_running := remove1 began (p_running p),
                 p_timers := p_timers p @ [p_time p + UPDATE_INTERVAL],
                 p_done := p_done p @ [(began, p_time p)],
                 p_world := w'\<rparr>"
    by simp
  from assms(1) began have run: "p_running p = [began]"
    by (auto simp: cycle_inv_def split: list.splits)
  with assms(1) show ?thesis
    by (auto simp: cycle_inv_def p')
qed

lemma run_cycle_inv:
  "cycle_inv p \<Longrightarrow> run py evs p = Some p' \<Longrightarrow> cycle_inv p'"
proof (induction evs arbitrary: p)
  case Nil
  then show ?case by simp
next
  case (Cons ev evs)
  then show ?case by (auto split: option.splits dest: step_cycle_inv)
qed

lemma boot_cycle_inv: "cycle_inv (boot w)"
  by (simp add: cycle_inv_def boot_def)

lemma sample_run:
  "run sample_lib sample_events (boot world0) = Some sample_final"
  by code_simp

text \<open>
  C5. In every state the process reaches from its start, whatever the outcomes of the
  fetches: at most one call of \<open>update_kml\<close> is executing; when none is, exactly one
  timer is pending, due 300 seconds after the end of the last cycle; while one is, no
  timer is pending; each cycle began at least 300 seconds after the end of the one
  before it; and the call that completes next will start one timer of 300 seconds,
  whether it succeeds or fails.
\<close>

theorem single_flight:
  assumes "run py evs (boot w) = Some p"
  shows "length (p_running p) \<le> 1
       \<and> (p_running p = [] \<longrightarrow>
            p_done p \<noteq> [] \<and> p_timers p = [snd (last (p_done p)) + 300])
       \<and> (p_running p \<noteq> [] \<longrightarrow> p_timers p = [])
       \<and> spaced 300 (p_done p @ map (\<lambda>t. (t, p_time p)) (p_running p))
       \<and> (\<forall>fetched clk. snd (update_kml py fetched clk (p_world p)) = [300])"
proof -
  have "cycle_inv p" using run_cycle_inv [OF boot_cycle_inv assms] .
  then show ?thesis
    by (auto simp: cycle_inv_def update_kml_timer UPDATE_INTERVAL_def split: list.splits)
qed

text \<open>
  A first cycle that fails after 2 seconds, the timer firing at 302, a second cycle
  that succeeds at 303: the next timer is due at 603.
\<close>

theorem single_flight_witness:
  "run sample_lib sample_events (boot world0) = Some sample_final
   \<and> p_running sample_final = []
   \<and> p_done sample_final = [(0, 2), (302, 303)]
   \<and> p_timers sample_final = [603]
   \<and> spaced 300 [(0, 2), (302, 303)]"
proof -
  have r: "p_running sample_final = []" and d: "p_done sample_final = [(0, 2), (302, 303)]"
    by (simp_all add: sample_final_def)
  from single_flight [OF sample_run] sample_run r d
  show ?thesis by simp
qed

end
